theory Spec2Isabelle
  imports Complex_Main "HOL-Library.Word"
begin

section \<open>Values of the host language\<close>

text \<open>
  A JavaScript string is a sequence of UTF-16 code units. The text fields of the screen
  are trimmed with \<^verbatim>\<open>String.prototype.trim\<close>, whose white space reaches beyond
  Latin-1, so strings are lists of 16-bit words and not lists of 8-bit characters.
  \<open>lit\<close> embeds the ASCII literals of the source.
\<close>

type_synonym js_string = "16 word list"

definition lit :: "string \<Rightarrow> js_string" where
  "lit s = map of_char s"

text \<open>
  White space and line terminators of ECMAScript, as removed by \<^verbatim>\<open>trim\<close>:
  TAB, LF, VT, FF, CR, SP, NBSP, U+1680, U+2000 to U+200A, U+2028, U+2029, U+202F,
  U+205F, U+3000 and U+FEFF.
\<close>

definition js_whitespace :: "16 word \<Rightarrow> bool" where
  "js_whitespace c \<longleftrightarrow>
     c \<in> {0x0009, 0x000A, 0x000B, 0x000C, 0x000D, 0x0020, 0x00A0, 0x1680,
          0x2000, 0x2001, 0x2002, 0x2003, 0x2004, 0x2005, 0x2006, 0x2007, 0x2008,
          0x2009, 0x200A, 0x2028, 0x2029, 0x202F, 0x205F, 0x3000, 0xFEFF}"

definition trim :: "js_string \<Rightarrow> js_string" where
  "trim s = rev (dropWhile js_whitespace (rev (dropWhile js_whitespace s)))"

text \<open>
  \<^verbatim>\<open>${Date.now()}\<close> inside a template literal: the decimal digits of a
  non-negative integer number of milliseconds (a clock reading is far below the
  \<open>10^21\<close> from which JavaScript switches to exponent notation).
\<close>

fun number_toString :: "nat \<Rightarrow> js_string" where
  "number_toString n =
     (if n < 10 then [of_nat (48 + n)]
      else number_toString (n div 10) @ [of_nat (48 + n mod 10)])"

declare number_toString.simps [simp del]

text \<open>
  A value that reaches a \<^verbatim>\<open>catch\<close> clause. The clause of \<^verbatim>\<open>handleSubmit\<close>
  only asks whether the value is an instance of \<^verbatim>\<open>Error\<close> and, if so, reads its
  \<^verbatim>\<open>message\<close>; \<open>Other_value\<close> stands for every thrown value that is not such
  an instance (a plain object decoded from a response body, for example), with whatever
  description it carries.
\<close>

datatype thrown = Error_instance (message: js_string) | Other_value js_string

section \<open>The collaborators\<close>

text \<open>JavaScript numbers are only passed along or written as literals here.\<close>

type_synonym js_number = real

datatype action = Resize_width js_number

datatype SaveFormat = JPEG | PNG | WEBP

record save_options =
  compress :: js_number
  save_format :: SaveFormat

record image_result =
  uri :: js_string
  res_width :: js_number
  res_height :: js_number

type_synonym blob = "8 word list"

definition blob_size :: "blob \<Rightarrow> js_number" where
  "blob_size b = real (length b)"

text \<open>The response of \<^verbatim>\<open>fetch\<close>; reading its body with \<^verbatim>\<open>.blob()\<close> may reject.\<close>

datatype response = Response (body: "thrown + blob")

text \<open>The resolved value of a storage upload: \<^verbatim>\<open>{ data, error }\<close>.\<close>

record upload_response =
  up_error :: "thrown option"

text \<open>The \<^verbatim>\<open>ImageData\<close> interface of the source.\<close>

record metadata =
  width :: js_number
  height :: js_number
  format :: js_string
  size_md :: js_number

record ImageData =
  url :: js_string
  thumbnail_url :: js_string
  metadata :: metadata

text \<open>The object handed to \<^verbatim>\<open>.update(...)\<close>.\<close>

record update_payload =
  p_bio :: js_string
  p_avatar :: "ImageData option"
  p_links :: js_string

datatype slot = Main_slot | Thumb_slot

text \<open>
  The outside world of one submission. Every asynchronous call either rejects
  (\<open>Inl\<close>, the value thrown at the \<^verbatim>\<open>await\<close>) or resolves (\<open>Inr\<close>).
  \<open>date_now k\<close> is what the \<open>k\<close>-th reading of the clock returns, counted from 0
  within the submission. \<open>first_rejection\<close> says which of the two uploads rejects
  first when both do: it is all that \<^verbatim>\<open>Promise.all\<close> lets the flow observe of
  their relative timing. \<^verbatim>\<open>getPublicUrl\<close> is synchronous and builds a string.
\<close>

record env =
  manipulateAsync :: "js_string \<Rightarrow> action list \<Rightarrow> save_options \<Rightarrow> thrown + image_result"
  date_now :: "nat \<Rightarrow> nat"
  fetch :: "js_string \<Rightarrow> thrown + response"
  storage_upload :: "js_string \<Rightarrow> js_string \<Rightarrow> blob \<Rightarrow> thrown + upload_response"
  first_rejection :: slot
  storage_getPublicUrl :: "js_string \<Rightarrow> js_string \<Rightarrow> js_string"
  users_update :: "js_string \<Rightarrow> update_payload \<Rightarrow> js_string \<Rightarrow> thrown + thrown option"

text \<open>
  What a run does, in order. \<open>Storage_remove\<close> is the deletion call of the storage
  client; the flow has no call site for it.
\<close>

datatype event =
    Router_replace js_string
  | Router_push js_string
  | SetLoading bool
  | SetError "js_string option"
  | ManipulateAsync js_string "action list" save_options
  | Date_now
  | Fetch js_string
  | Response_blob response
  | Storage_upload js_string js_string blob
  | Storage_getPublicUrl js_string js_string
  | Storage_remove js_string "js_string list"
  | Users_update js_string update_payload js_string

fun is_transformation :: "event \<Rightarrow> bool" where
  "is_transformation (ManipulateAsync _ _ _) = True"
| "is_transformation _ = False"

fun is_upload :: "event \<Rightarrow> bool" where
  "is_upload (Storage_upload _ _ _) = True"
| "is_upload _ = False"

fun is_write :: "event \<Rightarrow> bool" where
  "is_write (Users_update _ _ _) = True"
| "is_write _ = False"

fun is_remove :: "event \<Rightarrow> bool" where
  "is_remove (Storage_remove _ _) = True"
| "is_remove _ = False"

text \<open>Calls that leave the screen's own state: everything but the two state setters.\<close>

fun is_external :: "event \<Rightarrow> bool" where
  "is_external (SetLoading _) = False"
| "is_external (SetError _) = False"
| "is_external _ = True"

fun is_error_shown :: "event \<Rightarrow> bool" where
  "is_error_shown (SetError (Some _)) = True"
| "is_error_shown _ = False"

section \<open>The screen\<close>

text \<open>
  The session as \<^verbatim>\<open>handleSubmit\<close> uses it: \<open>None\<close> when \<^verbatim>\<open>session?.user\<close> is
  missing, otherwise the \<^verbatim>\<open>session.user.id\<close>. The other fields are the state
  variables of the component.
\<close>

datatype session = Session (user_id: js_string)

record screen_state =
  session :: "session option"
  bio :: js_string
  links :: js_string
  avatar :: "js_string option"
  loading :: bool
  error :: "js_string option"

record compressed =
  main :: image_result
  thumbnail :: image_result

text \<open>
  \<^verbatim>\<open>compressImage\<close> (lines 96 to 125): two awaited transformations of the same
  \<open>uri\<close>, the second attempted only when the first resolves; whatever either throws is
  replaced by a new \<^verbatim>\<open>Error('Failed to compress image')\<close>.
\<close>

definition compressImage :: "env \<Rightarrow> js_string \<Rightarrow> (thrown + compressed) \<times> event list" where
  "compressImage e u =
     (let a1 = [Resize_width 800]; o1 = \<lparr>compress = 0.7, save_format = JPEG\<rparr>;
          a2 = [Resize_width 200]; o2 = \<lparr>compress = 0.5, save_format = JPEG\<rparr>
      in case manipulateAsync e u a1 o1 of
           Inl err \<Rightarrow>
             (Inl (Error_instance (lit ''Failed to compress image'')),
              [ManipulateAsync u a1 o1])
         | Inr compressedImage \<Rightarrow>
             (case manipulateAsync e u a2 o2 of
                Inl err \<Rightarrow>
                  (Inl (Error_instance (lit ''Failed to compress image'')),
                   [ManipulateAsync u a1 o1, ManipulateAsync u a2 o2])
              | Inr thumb \<Rightarrow>
                  (Inr \<lparr>main = compressedImage, thumbnail = thumb\<rparr>,
                   [ManipulateAsync u a1 o1, ManipulateAsync u a2 o2])))"

text \<open>
  The two template literals of lines 166 and 171, as functions of the clock reading each
  of them takes.
\<close>

definition mainFileName :: "session \<Rightarrow> nat \<Rightarrow> js_string" where
  "mainFileName sess t = user_id sess @ lit ''-'' @ number_toString t @ lit ''.jpg''"

definition thumbFileName :: "session \<Rightarrow> nat \<Rightarrow> js_string" where
  "thumbFileName sess t = user_id sess @ lit ''-'' @ number_toString t @ lit ''-thumb.jpg''"

text \<open>
  \<^verbatim>\<open>await fetch(u)\<close> followed by \<^verbatim>\<open>await response.blob()\<close> (lines 167 and 168,
  then 172 and 173).
\<close>

definition read_blob :: "env \<Rightarrow> js_string \<Rightarrow> (thrown + blob) \<times> event list" where
  "read_blob e u =
     (case fetch e u of
        Inl err \<Rightarrow> (Inl err, [Fetch u])
      | Inr r \<Rightarrow>
          (case body r of
             Inl err \<Rightarrow> (Inl err, [Fetch u, Response_blob r])
           | Inr b \<Rightarrow> (Inr b, [Fetch u, Response_blob r])))"

text \<open>
  \<^verbatim>\<open>await Promise.all([p, q])\<close> for two promises that have both been created:
  it resolves with both values when both resolve, and otherwise rejects with the reason
  of the promise that rejects first.
\<close>

definition promise_all2 :: "slot \<Rightarrow> thrown + 'a \<Rightarrow> thrown + 'b \<Rightarrow> thrown + 'a \<times> 'b" where
  "promise_all2 first p q =
     (case p of
        Inr a \<Rightarrow> (case q of Inr b \<Rightarrow> Inr (a, b) | Inl y \<Rightarrow> Inl y)
      | Inl x \<Rightarrow>
          (case q of
             Inr b \<Rightarrow> Inl x
           | Inl y \<Rightarrow> Inl (case first of Main_slot \<Rightarrow> x | Thumb_slot \<Rightarrow> y)))"

text \<open>
  Lines 175 to 198: both uploads are started, then awaited together; the
  \<^verbatim>\<open>error\<close> field of the main response is inspected before that of the thumbnail
  response; then the two public URLs are resolved and the \<^verbatim>\<open>ImageData\<close> is built.
\<close>

definition upload_variants ::
  "env \<Rightarrow> compressed \<Rightarrow> js_string \<Rightarrow> blob \<Rightarrow> js_string \<Rightarrow> blob \<Rightarrow> (thrown + ImageData) \<times> event list"
where
  "upload_variants e c mainName mainBlob thumbName thumbBlob =
     (let bucket = lit ''avatars'';
          issued = [Storage_upload bucket mainName mainBlob,
                    Storage_upload bucket thumbName thumbBlob]
      in case promise_all2 (first_rejection e)
                (storage_upload e bucket mainName mainBlob)
                (storage_upload e bucket thumbName thumbBlob) of
           Inl err \<Rightarrow> (Inl err, issued)
         | Inr (mainUpload, thumbUpload) \<Rightarrow>
             (case up_error mainUpload of
                Some err \<Rightarrow> (Inl err, issued)
              | None \<Rightarrow>
                  (case up_error thumbUpload of
                     Some err \<Rightarrow> (Inl err, issued)
                   | None \<Rightarrow>
                       (Inr \<lparr>url = storage_getPublicUrl e bucket mainName,
                             thumbnail_url = storage_getPublicUrl e bucket thumbName,
                             metadata = \<lparr>width = res_width (main c),
                                         height = res_height (main c),
                                         format = lit ''jpeg'',
                                         size_md = blob_size mainBlob\<rparr>\<rparr>,
                        issued @ [Storage_getPublicUrl bucket mainName,
                                  Storage_getPublicUrl bucket thumbName]))))"

text \<open>
  The failure of one upload, as the flow can observe it: the reason of a rejection, or
  the \<^verbatim>\<open>error\<close> field of the resolved response.
\<close>

fun upload_failure :: "thrown + upload_response \<Rightarrow> thrown option" where
  "upload_failure (Inl x) = Some x"
| "upload_failure (Inr r) = up_error r"

text \<open>
  Lines 162 to 198, the body of \<^verbatim>\<open>if (avatar)\<close>: derive the two variants, then for
  each of them read the clock for its file name and read its bytes, then upload.
\<close>

definition avatar_block :: "env \<Rightarrow> session \<Rightarrow> js_string \<Rightarrow> (thrown + ImageData) \<times> event list" where
  "avatar_block e sess a =
     (case compressImage e a of
        (Inl err, tr1) \<Rightarrow> (Inl err, tr1)
      | (Inr c, tr1) \<Rightarrow>
          (case read_blob e (uri (main c)) of
             (Inl err, tr2) \<Rightarrow> (Inl err, tr1 @ [Date_now] @ tr2)
           | (Inr mainBlob, tr2) \<Rightarrow>
               (case read_blob e (uri (thumbnail c)) of
                  (Inl err, tr3) \<Rightarrow> (Inl err, tr1 @ [Date_now] @ tr2 @ [Date_now] @ tr3)
                | (Inr thumbBlob, tr3) \<Rightarrow>
                    (case upload_variants e c
                            (mainFileName sess (date_now e 0)) mainBlob
                            (thumbFileName sess (date_now e 1)) thumbBlob of
                       (r, tr4) \<Rightarrow> (r, tr1 @ [Date_now] @ tr2 @ [Date_now] @ tr3 @ tr4)))))"

text \<open>
  Both derivations of the picked image \<open>a\<close> succeed with the variants \<open>c\<close>, and the
  bytes \<open>mb\<close> and \<open>tb\<close> of the two variants are read: the condition under which the
  flow reaches its uploads.
\<close>

definition variants_read :: "env \<Rightarrow> js_string \<Rightarrow> compressed \<Rightarrow> blob \<Rightarrow> blob \<Rightarrow> bool" where
  "variants_read e a c mb tb \<longleftrightarrow>
     fst (compressImage e a) = Inr c \<and>
     fst (read_blob e (uri (main c))) = Inr mb \<and>
     fst (read_blob e (uri (thumbnail c))) = Inr tb"

text \<open>What has been done by then, after the two state setters of lines 150 and 151.\<close>

definition prepared :: "env \<Rightarrow> js_string \<Rightarrow> compressed \<Rightarrow> event list" where
  "prepared e a c =
     snd (compressImage e a) @ [Date_now] @ snd (read_blob e (uri (main c))) @
     [Date_now] @ snd (read_blob e (uri (thumbnail c)))"

fun is_preparation :: "event \<Rightarrow> bool" where
  "is_preparation (ManipulateAsync _ _ _) = True"
| "is_preparation Date_now = True"
| "is_preparation (Fetch _) = True"
| "is_preparation (Response_blob _) = True"
| "is_preparation _ = False"

text \<open>A string-or-null in a condition: \<^verbatim>\<open>null\<close> and the empty string are falsy.\<close>

fun truthy :: "js_string option \<Rightarrow> bool" where
  "truthy None = False"
| "truthy (Some a) = (a \<noteq> [])"

text \<open>
  The \<^verbatim>\<open>try\<close> block (lines 160 to 212). The result is the value thrown into the
  \<^verbatim>\<open>catch\<close> clause, if any. \<^verbatim>\<open>avatarData\<close> stays \<^verbatim>\<open>null\<close> when the
  condition of line 161 is falsy. The response of the update resolves to
  \<^verbatim>\<open>{ error }\<close>, which is thrown when it is not \<^verbatim>\<open>null\<close>.
\<close>

definition try_block ::
  "env \<Rightarrow> session \<Rightarrow> js_string \<Rightarrow> js_string option \<Rightarrow> js_string \<Rightarrow> thrown option \<times> event list"
where
  "try_block e sess bio_v avatar_v links_v =
     (case (case avatar_v of
              None \<Rightarrow> (Inr None, [])
            | Some a \<Rightarrow>
                if truthy (Some a)
                then (case avatar_block e sess a of
                        (Inl err, tr) \<Rightarrow> (Inl err, tr)
                      | (Inr d, tr) \<Rightarrow> (Inr (Some d), tr))
                else (Inr None, [])) of
        (Inl err, tr) \<Rightarrow> (Some err, tr)
      | (Inr avatarData, tr) \<Rightarrow>
          (let payload = \<lparr>p_bio = bio_v, p_avatar = avatarData, p_links = links_v\<rparr>;
               tr' = tr @ [Users_update (lit ''users'') payload (user_id sess)]
           in case users_update e (lit ''users'') payload (user_id sess) of
                Inl err \<Rightarrow> (Some err, tr')
              | Inr (Some updateError) \<Rightarrow> (Some updateError, tr')
              | Inr None \<Rightarrow> (None, tr' @ [Router_push (lit ''/dash'')])))"

text \<open>Line 214: what the \<^verbatim>\<open>catch\<close> clause shows for a caught value.\<close>

fun catch_message :: "thrown \<Rightarrow> js_string" where
  "catch_message (Error_instance m) = m"
| "catch_message (Other_value _) = lit ''An error occurred.''"

text \<open>
  \<^verbatim>\<open>handleSubmit\<close> runs synchronously up to its first \<^verbatim>\<open>await\<close> (line 163).
  \<open>handleSubmit_sync\<close> is that prefix (lines 145 to 157): it either returns, or leaves
  the submission in flight with the state it has set by then. The values of
  \<open>bio\<close>, \<open>links\<close>, \<open>avatar\<close> and \<open>session\<close> read later are those of the
  render the handler was created in, that is, of the state it was invoked on.
\<close>

datatype sync_outcome =
    Returned screen_state "event list"
  | In_flight session screen_state "event list"

definition handleSubmit_sync :: "screen_state \<Rightarrow> sync_outcome" where
  "handleSubmit_sync s =
     (case session s of
        None \<Rightarrow> Returned s [Router_replace (lit ''/auth'')]
      | Some sess \<Rightarrow>
          (let s1 = s\<lparr>loading := True, error := None\<rparr>;
               tr0 = [SetLoading True, SetError None]
           in if trim (bio s) = [] \<or> \<not> truthy (avatar s) \<or> trim (links s) = []
              then Returned (s1\<lparr>error := Some (lit ''All fields are required.''),
                                loading := False\<rparr>)
                     (tr0 @ [SetError (Some (lit ''All fields are required.'')),
                             SetLoading False])
              else In_flight sess s1 tr0))"

text \<open>The whole of \<^verbatim>\<open>handleSubmit\<close>: the final state and everything done, in order.\<close>

definition handleSubmit :: "env \<Rightarrow> screen_state \<Rightarrow> screen_state \<times> event list" where
  "handleSubmit e s =
     (case handleSubmit_sync s of
        Returned s' tr \<Rightarrow> (s', tr)
      | In_flight sess s1 tr0 \<Rightarrow>
          (case try_block e sess (bio s) (avatar s) (links s) of
             (None, tr) \<Rightarrow> (s1\<lparr>loading := False\<rparr>, tr0 @ tr @ [SetLoading False])
           | (Some err, tr) \<Rightarrow>
               (s1\<lparr>error := Some (catch_message err), loading := False\<rparr>,
                tr0 @ tr @ [SetError (Some (catch_message err)), SetLoading False])))"

text \<open>
  The submit control (lines 220 to 222 and 260 to 264): nothing is rendered without a
  session; otherwise the control is rendered with \<^verbatim>\<open>disabled={loading}\<close> and
  \<^verbatim>\<open>onPress={handleSubmit}\<close>. A disabled touchable does not call its handler.
\<close>

record touchable =
  disabled :: bool

definition submit_control :: "screen_state \<Rightarrow> touchable option" where
  "submit_control s =
     (case session s of None \<Rightarrow> None | Some _ \<Rightarrow> Some \<lparr>disabled = loading s\<rparr>)"

definition press_submit :: "env \<Rightarrow> screen_state \<Rightarrow> screen_state \<times> event list" where
  "press_submit e s =
     (case submit_control s of
        None \<Rightarrow> (s, [])
      | Some b \<Rightarrow> if disabled b then (s, []) else handleSubmit e s)"

section \<open>A worked scenario\<close>

text \<open>
  One concrete world, used to run the flow: user \<open>u1\<close>, bio \<open>Hello\<close>, link
  \<open>https://x.com\<close>, a picked image, clock readings 1690 and 1695, a main variant of
  three bytes and a thumbnail of one. The other environments change one collaborator
  each; the other states change the text fields.
\<close>

definition scenario_state :: screen_state where
  "scenario_state =
     \<lparr>session = Some (Session (lit ''u1'')), bio = lit ''Hello'', links = lit ''https://x.com'',
      avatar = Some (lit ''file:///picked.png''), loading = False, error = None\<rparr>"

definition scenario_env :: env where
  "scenario_env =
     \<lparr>manipulateAsync = (\<lambda>u a opts.
          if a = [Resize_width 800]
          then Inr \<lparr>uri = lit ''file:///main.jpg'', res_width = 800, res_height = 800\<rparr>
          else Inr \<lparr>uri = lit ''file:///thumb.jpg'', res_width = 200, res_height = 200\<rparr>),
      date_now = (\<lambda>k. 1690 + 5 * k),
      fetch = (\<lambda>u. Inr (Response (Inr (if u = lit ''file:///main.jpg'' then [1, 2, 3] else [4])))),
      storage_upload = (\<lambda>b k bl. Inr \<lparr>up_error = None\<rparr>),
      first_rejection = Main_slot,
      storage_getPublicUrl = (\<lambda>b k. lit ''https://cdn/'' @ b @ lit ''/'' @ k),
      users_update = (\<lambda>t p i. Inr None)\<rparr>"

definition scenario_variants :: compressed where
  "scenario_variants =
     \<lparr>main = \<lparr>uri = lit ''file:///main.jpg'', res_width = 800, res_height = 800\<rparr>,
      thumbnail = \<lparr>uri = lit ''file:///thumb.jpg'', res_width = 200, res_height = 200\<rparr>\<rparr>"

definition blank_bio_state :: screen_state where
  "blank_bio_state = scenario_state\<lparr>bio := [0x2003, 0x0020]\<rparr>"

definition padded_state :: screen_state where
  "padded_state = scenario_state\<lparr>bio := lit ''  Hello '', links := lit '' https://x.com ''\<rparr>"

definition thumb_upload_failed_env :: env where
  "thumb_upload_failed_env =
     scenario_env\<lparr>storage_upload := (\<lambda>b k bl.
        if bl = [4] then Inr \<lparr>up_error = Some (Error_instance (lit ''Payload too large''))\<rparr>
        else Inr \<lparr>up_error = None\<rparr>)\<rparr>"

definition thumb_upload_plain_error_env :: env where
  "thumb_upload_plain_error_env =
     scenario_env\<lparr>storage_upload := (\<lambda>b k bl.
        if bl = [4] then Inr \<lparr>up_error = Some (Other_value (lit ''Payload too large''))\<rparr>
        else Inr \<lparr>up_error = None\<rparr>)\<rparr>"

definition write_failed_env :: env where
  "write_failed_env =
     scenario_env\<lparr>users_update := (\<lambda>t p i. Inr (Some (Other_value (lit ''permission denied''))))\<rparr>"

definition thumbnail_failed_env :: env where
  "thumbnail_failed_env =
     scenario_env\<lparr>manipulateAsync := (\<lambda>u a opts.
        if a = [Resize_width 800]
        then Inr \<lparr>uri = lit ''file:///main.jpg'', res_width = 800, res_height = 800\<rparr>
        else Inl (Other_value (lit ''out of memory'')))\<rparr>"

section \<open>The shape of a run\<close>

text \<open>
  Facts about the stages of \<^verbatim>\<open>handleSubmit\<close>, shared by the properties below:
  what each stage can put on the trace, and the form of a run once the input is valid
  and once both variants have been read.
\<close>

lemmas scenario_defs = scenario_state_def scenario_env_def scenario_variants_def

lemmas eval_defs = lit_def trim_def js_whitespace_def variants_read_def compressImage_def
  read_blob_def mainFileName_def thumbFileName_def blob_size_def

lemmas run_defs = handleSubmit_def handleSubmit_sync_def try_block_def avatar_block_def
  upload_variants_def promise_all2_def Let_def

lemma preparation_only:
  "is_preparation ev \<Longrightarrow>
     \<not> is_upload ev \<and> \<not> is_write ev \<and> \<not> is_remove ev \<and> \<not> is_error_shown ev \<and> is_external ev"
  by (cases ev) auto

lemma compressImage_preparation: "ev \<in> set (snd (compressImage e u)) \<Longrightarrow> is_preparation ev"
  by (auto simp: compressImage_def Let_def split: sum.splits)

lemma read_blob_preparation: "ev \<in> set (snd (read_blob e u)) \<Longrightarrow> is_preparation ev"
  by (auto simp: read_blob_def split: sum.splits)

lemma prepared_preparation: "ev \<in> set (prepared e a c) \<Longrightarrow> is_preparation ev"
  by (auto simp: prepared_def dest: compressImage_preparation read_blob_preparation)

lemma avatar_block_cases:
  "(\<exists>x. fst (avatar_block e sess a) = Inl x \<and>
        (\<forall>ev \<in> set (snd (avatar_block e sess a)). is_preparation ev)) \<or>
   (\<exists>c mb tb. variants_read e a c mb tb)"
proof (cases "compressImage e a")
  case (Pair r1 tr1)
  show ?thesis
  proof (cases r1)
    case (Inl x)
    with Pair compressImage_preparation[of _ e a] show ?thesis
      by (auto simp: avatar_block_def)
  next
    case (Inr c)
    note c = this
    obtain r2 tr2 where rb1: "read_blob e (uri (main c)) = (r2, tr2)" by fastforce
    obtain r3 tr3 where rb2: "read_blob e (uri (thumbnail c)) = (r3, tr3)" by fastforce
    show ?thesis
    proof (cases r2)
      case (Inl x)
      with Pair c rb1 compressImage_preparation[of _ e a] read_blob_preparation[of _ e "uri (main c)"]
      show ?thesis by (auto simp: avatar_block_def)
    next
      case (Inr mb)
      note mb = this
      show ?thesis
      proof (cases r3)
        case (Inl x)
        with Pair c rb1 rb2 mb compressImage_preparation[of _ e a]
          read_blob_preparation[of _ e "uri (main c)"] read_blob_preparation[of _ e "uri (thumbnail c)"]
        show ?thesis by (auto simp: avatar_block_def)
      next
        case (Inr tb)
        with Pair c rb1 rb2 mb have "variants_read e a c mb tb"
          by (simp add: variants_read_def)
        then show ?thesis by blast
      qed
    qed
  qed
qed

lemma avatar_block_read:
  assumes "variants_read e a c mb tb"
  shows "avatar_block e sess a =
          (fst (upload_variants e c (mainFileName sess (date_now e 0)) mb
                  (thumbFileName sess (date_now e 1)) tb),
           prepared e a c @
           snd (upload_variants e c (mainFileName sess (date_now e 0)) mb
                  (thumbFileName sess (date_now e 1)) tb))"
proof -
  obtain tr1 where 1: "compressImage e a = (Inr c, tr1)"
    using assms by (cases "compressImage e a") (simp add: variants_read_def)
  obtain tr2 where 2: "read_blob e (uri (main c)) = (Inr mb, tr2)"
    using assms by (cases "read_blob e (uri (main c))") (simp add: variants_read_def)
  obtain tr3 where 3: "read_blob e (uri (thumbnail c)) = (Inr tb, tr3)"
    using assms by (cases "read_blob e (uri (thumbnail c))") (simp add: variants_read_def)
  show ?thesis
    by (simp add: avatar_block_def prepared_def 1 2 3 split: prod.splits)
qed

lemma upload_variants_cases:
  "(\<exists>x. upload_variants e c mk mb tk tb =
           (Inl x, [Storage_upload (lit ''avatars'') mk mb, Storage_upload (lit ''avatars'') tk tb]) \<and>
        (upload_failure (storage_upload e (lit ''avatars'') mk mb) = Some x \<or>
         upload_failure (storage_upload e (lit ''avatars'') tk tb) = Some x)) \<or>
   (upload_failure (storage_upload e (lit ''avatars'') mk mb) = None \<and>
    upload_failure (storage_upload e (lit ''avatars'') tk tb) = None \<and>
    upload_variants e c mk mb tk tb =
      (Inr \<lparr>url = storage_getPublicUrl e (lit ''avatars'') mk,
            thumbnail_url = storage_getPublicUrl e (lit ''avatars'') tk,
            metadata = \<lparr>width = res_width (main c), height = res_height (main c),
                        format = lit ''jpeg'', size_md = blob_size mb\<rparr>\<rparr>,
       [Storage_upload (lit ''avatars'') mk mb, Storage_upload (lit ''avatars'') tk tb,
        Storage_getPublicUrl (lit ''avatars'') mk, Storage_getPublicUrl (lit ''avatars'') tk]))"
  by (cases "storage_upload e (lit ''avatars'') mk mb"; cases "storage_upload e (lit ''avatars'') tk tb")
     (auto simp: upload_variants_def promise_all2_def Let_def split: option.splits slot.splits)

lemma upload_variants_reported:
  assumes "storage_upload e (lit ''avatars'') mk mb = Inr r"
      and "storage_upload e (lit ''avatars'') tk tb = Inr r'"
      and "up_error r = Some x \<or> (up_error r = None \<and> up_error r' = Some x)"
  shows "upload_variants e c mk mb tk tb =
           (Inl x, [Storage_upload (lit ''avatars'') mk mb, Storage_upload (lit ''avatars'') tk tb])"
  using assms by (auto simp: upload_variants_def promise_all2_def Let_def)

lemma handleSubmit_valid:
  assumes "session s = Some sess" "trim (bio s) \<noteq> []" "avatar s = Some a" "a \<noteq> []"
          "trim (links s) \<noteq> []"
  shows "handleSubmit e s =
    (case avatar_block e sess a of
       (Inl x, tr) \<Rightarrow>
         (s\<lparr>loading := False, error := Some (catch_message x)\<rparr>,
          [SetLoading True, SetError None] @ tr @
          [SetError (Some (catch_message x)), SetLoading False])
     | (Inr d, tr) \<Rightarrow>
         (case users_update e (lit ''users'')
                 \<lparr>p_bio = bio s, p_avatar = Some d, p_links = links s\<rparr> (user_id sess) of
            Inl x \<Rightarrow>
              (s\<lparr>loading := False, error := Some (catch_message x)\<rparr>,
               [SetLoading True, SetError None] @ tr @
               [Users_update (lit ''users'')
                  \<lparr>p_bio = bio s, p_avatar = Some d, p_links = links s\<rparr> (user_id sess),
                SetError (Some (catch_message x)), SetLoading False])
          | Inr None \<Rightarrow>
              (s\<lparr>loading := False, error := None\<rparr>,
               [SetLoading True, SetError None] @ tr @
               [Users_update (lit ''users'')
                  \<lparr>p_bio = bio s, p_avatar = Some d, p_links = links s\<rparr> (user_id sess),
                Router_push (lit ''/dash''), SetLoading False])
          | Inr (Some x) \<Rightarrow>
              (s\<lparr>loading := False, error := Some (catch_message x)\<rparr>,
               [SetLoading True, SetError None] @ tr @
               [Users_update (lit ''users'')
                  \<lparr>p_bio = bio s, p_avatar = Some d, p_links = links s\<rparr> (user_id sess),
                SetError (Some (catch_message x)), SetLoading False])))"
  using assms
  by (simp add: handleSubmit_def handleSubmit_sync_def try_block_def Let_def
      split: prod.splits sum.splits option.splits)

lemma handleSubmit_cases:
  "(\<forall>ev \<in> set (snd (handleSubmit e s)). \<not> is_upload ev \<and> \<not> is_write ev) \<or>
   (\<exists>sess a c mb tb. session s = Some sess \<and> trim (bio s) \<noteq> [] \<and> avatar s = Some a \<and>
       a \<noteq> [] \<and> trim (links s) \<noteq> [] \<and> variants_read e a c mb tb)"
proof (cases "session s")
  case None
  then show ?thesis by (simp add: handleSubmit_def handleSubmit_sync_def)
next
  case (Some sess)
  show ?thesis
  proof (cases "trim (bio s) = [] \<or> \<not> truthy (avatar s) \<or> trim (links s) = []")
    case True
    with Some show ?thesis by (auto simp: handleSubmit_def handleSubmit_sync_def Let_def)
  next
    case False
    then obtain a where a: "avatar s = Some a" "a \<noteq> []"
      by (cases "avatar s") auto
    from False have v: "trim (bio s) \<noteq> []" "trim (links s) \<noteq> []" by auto
    from avatar_block_cases[of e sess a] show ?thesis
    proof
      assume "\<exists>x. fst (avatar_block e sess a) = Inl x \<and>
        (\<forall>ev \<in> set (snd (avatar_block e sess a)). is_preparation ev)"
      then obtain x tr where ab: "avatar_block e sess a = (Inl x, tr)"
        and prep: "\<forall>ev \<in> set tr. is_preparation ev"
        by (cases "avatar_block e sess a") auto
      have "\<not> is_upload ev \<and> \<not> is_write ev" if "is_preparation ev" for ev
        using that by (cases ev) auto
      with prep have "\<forall>ev \<in> set tr. \<not> is_upload ev \<and> \<not> is_write ev" by blast
      then show ?thesis
        by (simp add: handleSubmit_valid[OF Some v(1) a v(2)] ab)
    next
      assume "\<exists>c mb tb. variants_read e a c mb tb"
      with Some a v show ?thesis by blast
    qed
  qed
qed

lemma handleSubmit_uploading:
  assumes "session s = Some sess" "trim (bio s) \<noteq> []" "avatar s = Some a" "a \<noteq> []"
          "trim (links s) \<noteq> []"
      and "variants_read e a c mb tb"
  shows "\<exists>post. snd (handleSubmit e s) =
           [SetLoading True, SetError None] @ prepared e a c @
           [Storage_upload (lit ''avatars'') (mainFileName sess (date_now e 0)) mb,
            Storage_upload (lit ''avatars'') (thumbFileName sess (date_now e 1)) tb] @ post \<and>
           (\<forall>ev \<in> set post. \<not> is_upload ev \<and> \<not> is_preparation ev)"
proof (cases rule: upload_variants_cases[of e c "mainFileName sess (date_now e 0)" mb
        "thumbFileName sess (date_now e 1)" tb, THEN disjE])
  case 1
  then show ?thesis
    by (auto simp: handleSubmit_valid[OF assms(1-5)] avatar_block_read[OF assms(6)])
next
  case 2
  then show ?thesis
    by (auto simp: handleSubmit_valid[OF assms(1-5)] avatar_block_read[OF assms(6)]
        split: sum.splits option.splits)
qed

lemma handleSubmit_no_remove: "ev \<in> set (snd (handleSubmit e s)) \<Longrightarrow> \<not> is_remove ev"
  by (auto simp: handleSubmit_def handleSubmit_sync_def try_block_def avatar_block_def
        upload_variants_def compressImage_def read_blob_def Let_def
      split: option.splits sum.splits prod.splits if_splits)

lemma handleSubmit_ignores_loading:
  "snd (handleSubmit e (s\<lparr>loading := b\<rparr>)) = snd (handleSubmit e s)"
  by (simp add: handleSubmit_def handleSubmit_sync_def Let_def
      split: option.splits prod.splits)

lemma number_toString_nonempty: "number_toString n \<noteq> []"
  by (subst number_toString.simps) simp

lemma digit_inj:
  "a < 10 \<Longrightarrow> b < 10 \<Longrightarrow> (of_nat (48 + a) :: 16 word) = of_nat (48 + b) \<Longrightarrow> a = b"
  by (simp add: word_of_nat_eq_iff take_bit_nat_eq_self)

lemma number_toString_inj: "number_toString n = number_toString m \<Longrightarrow> n = m"
proof (induction n arbitrary: m rule: number_toString.induct)
  case (1 n)
  show ?case
  proof (cases "n < 10")
    case True
    then have n: "number_toString n = [of_nat (48 + n)]"
      by (subst number_toString.simps) simp
    show ?thesis
    proof (cases "m < 10")
      case True
      then have "number_toString m = [of_nat (48 + m)]"
        by (subst number_toString.simps) simp
      with n "1.prems" \<open>n < 10\<close> True show ?thesis by (auto dest: digit_inj)
    next
      case False
      then have "number_toString m = number_toString (m div 10) @ [of_nat (48 + m mod 10)]"
        by (subst number_toString.simps) simp
      with n "1.prems" number_toString_nonempty[of "m div 10"] show ?thesis by simp
    qed
  next
    case False
    then have n: "number_toString n = number_toString (n div 10) @ [of_nat (48 + n mod 10)]"
      by (subst number_toString.simps) simp
    show ?thesis
    proof (cases "m < 10")
      case True
      then have "number_toString m = [of_nat (48 + m)]"
        by (subst number_toString.simps) simp
      with n "1.prems" number_toString_nonempty[of "n div 10"] show ?thesis by simp
    next
      case m: False
      then have "number_toString m = number_toString (m div 10) @ [of_nat (48 + m mod 10)]"
        by (subst number_toString.simps) simp
      with n "1.prems" have eq: "number_toString (n div 10) = number_toString (m div 10)"
        and d: "(of_nat (48 + n mod 10) :: 16 word) = of_nat (48 + m mod 10)"
        by simp_all
      from "1.IH"[OF False eq] have "n div 10 = m div 10" .
      moreover from d have "n mod 10 = m mod 10" by (intro digit_inj) simp_all
      ultimately show ?thesis by (metis div_mult_mod_eq)
    qed
  qed
qed

lemma scenario_ok:
  "session scenario_state = Some (Session (lit ''u1''))"
  "trim (bio scenario_state) \<noteq> []"
  "avatar scenario_state = Some (lit ''file:///picked.png'')"
  "lit ''file:///picked.png'' \<noteq> []"
  "trim (links scenario_state) \<noteq> []"
  by (simp_all add: scenario_defs eval_defs)

lemma scenario_variants_read:
  "variants_read scenario_env (lit ''file:///picked.png'') scenario_variants [1, 2, 3] [4]"
  by (simp add: scenario_defs eval_defs)

lemma thumb_upload_failed_read:
  "variants_read thumb_upload_failed_env (lit ''file:///picked.png'') scenario_variants
     [1, 2, 3] [4]"
  by (simp add: thumb_upload_failed_env_def scenario_defs eval_defs)


lemma write_failed_run:
  "Users_update (lit ''users'')
     \<lparr>p_bio = lit ''Hello'',
      p_avatar = Some
        \<lparr>url = lit ''https://cdn/avatars/u1-1690.jpg'',
         thumbnail_url = lit ''https://cdn/avatars/u1-1695-thumb.jpg'',
         metadata = \<lparr>width = 800, height = 800, format = lit ''jpeg'', size_md = 3\<rparr>\<rparr>,
      p_links = lit ''https://x.com''\<rparr>
     (lit ''u1'') \<in> set (snd (handleSubmit write_failed_env scenario_state))"
  by (simp add: run_defs write_failed_env_def scenario_defs eval_defs number_toString.simps)

lemma padded_run:
  "\<exists>t p i. Users_update t p i \<in> set (snd (handleSubmit scenario_env padded_state))"
  by (simp add: run_defs padded_state_def scenario_defs eval_defs)

section \<open>Properties\<close>

text \<open>
  C4. The image derivation asks for at most two transformations and nothing else: a
  resize to width 800 at quality 0.7 and a resize to width 200 at quality 0.5, both
  encoded as JPEG and both applied to the picked image \<open>u\<close> itself. When both
  transformations resolve, the derivation returns exactly two variants, the answer to
  the first as the main variant and the answer to the second as the thumbnail, having
  made exactly these two calls in this order. Conversely, whenever it returns variants
  they are these two answers: the thumbnail is the answer for the original \<open>u\<close>, not
  for the main variant.
\<close>

theorem compressImage_variants:
  "set (snd (compressImage e u)) \<subseteq>
      {ManipulateAsync u [Resize_width 800] \<lparr>compress = 0.7, save_format = JPEG\<rparr>,
       ManipulateAsync u [Resize_width 200] \<lparr>compress = 0.5, save_format = JPEG\<rparr>} \<and>
   (\<forall>m t. manipulateAsync e u [Resize_width 800] \<lparr>compress = 0.7, save_format = JPEG\<rparr> = Inr m \<and>
          manipulateAsync e u [Resize_width 200] \<lparr>compress = 0.5, save_format = JPEG\<rparr> = Inr t \<longrightarrow>
      compressImage e u =
        (Inr \<lparr>main = m, thumbnail = t\<rparr>,
         [ManipulateAsync u [Resize_width 800] \<lparr>compress = 0.7, save_format = JPEG\<rparr>,
          ManipulateAsync u [Resize_width 200] \<lparr>compress = 0.5, save_format = JPEG\<rparr>])) \<and>
   (\<forall>c. fst (compressImage e u) = Inr c \<longrightarrow>
      snd (compressImage e u) =
        [ManipulateAsync u [Resize_width 800] \<lparr>compress = 0.7, save_format = JPEG\<rparr>,
         ManipulateAsync u [Resize_width 200] \<lparr>compress = 0.5, save_format = JPEG\<rparr>] \<and>
      manipulateAsync e u [Resize_width 800] \<lparr>compress = 0.7, save_format = JPEG\<rparr> = Inr (main c) \<and>
      manipulateAsync e u [Resize_width 200] \<lparr>compress = 0.5, save_format = JPEG\<rparr> = Inr (thumbnail c))"
  by (auto simp: compressImage_def Let_def split: sum.splits)

theorem compressImage_variants_witness:
  "compressImage scenario_env (lit ''file:///picked.png'') =
     (Inr \<lparr>main = \<lparr>uri = lit ''file:///main.jpg'', res_width = 800, res_height = 800\<rparr>,
           thumbnail = \<lparr>uri = lit ''file:///thumb.jpg'', res_width = 200, res_height = 200\<rparr>\<rparr>,
      [ManipulateAsync (lit ''file:///picked.png'') [Resize_width 800]
         \<lparr>compress = 0.7, save_format = JPEG\<rparr>,
       ManipulateAsync (lit ''file:///picked.png'') [Resize_width 200]
         \<lparr>compress = 0.5, save_format = JPEG\<rparr>])"
proof -
  have 1: "manipulateAsync scenario_env (lit ''file:///picked.png'') [Resize_width 800]
             \<lparr>compress = 0.7, save_format = JPEG\<rparr> =
           Inr \<lparr>uri = lit ''file:///main.jpg'', res_width = 800, res_height = 800\<rparr>"
    by (simp add: scenario_defs)
  have 2: "manipulateAsync scenario_env (lit ''file:///picked.png'') [Resize_width 200]
             \<lparr>compress = 0.5, save_format = JPEG\<rparr> =
           Inr \<lparr>uri = lit ''file:///thumb.jpg'', res_width = 200, res_height = 200\<rparr>"
    by (simp add: scenario_defs)
  from compressImage_variants[of scenario_env "lit ''file:///picked.png''",
        THEN conjunct2, THEN conjunct1, rule_format, OF conjI[OF 1 2]]
  show ?thesis .
qed

text \<open>
  C3. With a session present, if the trimmed bio is empty, or no image is picked (the
  picked path is \<^verbatim>\<open>null\<close>, or the empty string, which the condition treats alike),
  or the trimmed links text is empty, the run consists of the four state-setter calls
  and nothing else: exactly one error is shown, the validation message, and no call
  leaves the screen, so there is no transformation, upload or record write.
\<close>

theorem validation_failure:
  assumes "session s = Some sess"
      and "trim (bio s) = [] \<or> \<not> truthy (avatar s) \<or> trim (links s) = []"
  shows "snd (handleSubmit e s) =
           [SetLoading True, SetError None,
            SetError (Some (lit ''All fields are required.'')), SetLoading False] \<and>
         filter is_error_shown (snd (handleSubmit e s)) =
           [SetError (Some (lit ''All fields are required.''))] \<and>
         filter is_external (snd (handleSubmit e s)) = [] \<and>
         error (fst (handleSubmit e s)) = Some (lit ''All fields are required.'') \<and>
         loading (fst (handleSubmit e s)) = False"
  using assms by (auto simp: handleSubmit_def handleSubmit_sync_def Let_def)

theorem validation_failure_witness:
  "snd (handleSubmit scenario_env blank_bio_state) =
     [SetLoading True, SetError None,
      SetError (Some (lit ''All fields are required.'')), SetLoading False]"
proof -
  have 1: "session blank_bio_state = Some (Session (lit ''u1''))"
    by (simp add: blank_bio_state_def scenario_defs)
  have 2: "trim (bio blank_bio_state) = [] \<or> \<not> truthy (avatar blank_bio_state) \<or>
           trim (links blank_bio_state) = []"
    by (simp add: blank_bio_state_def scenario_defs eval_defs)
  from validation_failure[OF 1 2] show ?thesis by (rule conjunct1)
qed

text \<open>
  The message of a failed derivation, letter for letter: in the scenario whose thumbnail
  derivation fails the screen shows \<open>Failed to compress image\<close>, with a capital F,
  which is not the string \<open>failed to compress image\<close>.
\<close>

theorem derivation_message_counterexample:
  "manipulateAsync thumbnail_failed_env (lit ''file:///picked.png'') [Resize_width 200]
     \<lparr>compress = 0.5, save_format = JPEG\<rparr> = Inl (Other_value (lit ''out of memory'')) \<and>
   error (fst (handleSubmit thumbnail_failed_env scenario_state)) =
     Some (lit ''Failed to compress image'') \<and>
   error (fst (handleSubmit thumbnail_failed_env scenario_state)) \<noteq>
     Some (lit ''failed to compress image'')"
  by (simp add: thumbnail_failed_env_def scenario_defs eval_defs handleSubmit_def handleSubmit_sync_def try_block_def
        avatar_block_def Let_def)

text \<open>
  C5, amended. For a valid input, if either derivation fails, the only calls that leave
  the screen are transformations (no fetch, upload, URL resolution or record write is
  issued), exactly one error is shown, it is the fixed message
  \<open>Failed to compress image\<close> whatever was thrown, and the loading flag is reset.
\<close>

theorem derivation_failure:
  assumes "session s = Some sess" "trim (bio s) \<noteq> []" "avatar s = Some a" "a \<noteq> []"
          "trim (links s) \<noteq> []"
      and "manipulateAsync e a [Resize_width 800] \<lparr>compress = 0.7, save_format = JPEG\<rparr> = Inl x \<or>
           manipulateAsync e a [Resize_width 200] \<lparr>compress = 0.5, save_format = JPEG\<rparr> = Inl x"
  shows "(\<forall>ev \<in> set (snd (handleSubmit e s)). is_external ev \<longrightarrow> is_transformation ev) \<and>
         filter is_error_shown (snd (handleSubmit e s)) =
           [SetError (Some (lit ''Failed to compress image''))] \<and>
         error (fst (handleSubmit e s)) = Some (lit ''Failed to compress image'') \<and>
         loading (fst (handleSubmit e s)) = False"
proof -
  have "\<exists>tr. compressImage e a = (Inl (Error_instance (lit ''Failed to compress image'')), tr) \<and>
          (\<forall>ev \<in> set tr. is_transformation ev)"
    using assms(6) by (auto simp: compressImage_def Let_def split: sum.splits)
  then obtain tr where "compressImage e a = (Inl (Error_instance (lit ''Failed to compress image'')), tr)"
    and "\<forall>ev \<in> set tr. is_transformation ev" by blast
  moreover from this(2) have "filter is_error_shown tr = []"
    by (induction tr) (auto elim: is_transformation.elims)
  ultimately show ?thesis
    by (simp add: handleSubmit_valid[OF assms(1-5)] avatar_block_def)
qed

theorem derivation_failure_witness:
  "filter is_error_shown (snd (handleSubmit thumbnail_failed_env scenario_state)) =
     [SetError (Some (lit ''Failed to compress image''))] \<and>
   error (fst (handleSubmit thumbnail_failed_env scenario_state)) =
     Some (lit ''Failed to compress image'') \<and>
   loading (fst (handleSubmit thumbnail_failed_env scenario_state)) = False"
proof -
  have 1: "manipulateAsync thumbnail_failed_env (lit ''file:///picked.png'') [Resize_width 800]
             \<lparr>compress = 0.7, save_format = JPEG\<rparr> = Inl (Other_value (lit ''out of memory'')) \<or>
           manipulateAsync thumbnail_failed_env (lit ''file:///picked.png'') [Resize_width 200]
             \<lparr>compress = 0.5, save_format = JPEG\<rparr> = Inl (Other_value (lit ''out of memory''))"
    by (simp add: thumbnail_failed_env_def scenario_defs)
  from derivation_failure[OF scenario_ok 1] show ?thesis by simp
qed

text \<open>
  C2. For a valid input (session present, bio and links non-empty after trimming, an
  image picked), when both derivations succeed and the bytes of both variants are read
  (without which no upload is issued), and both uploads resolve with no error, the run
  contains exactly one record write. It is keyed by the user id of the session and
  carries the untouched bio and links and an image reference whose \<open>url\<close> and
  \<open>thumbnail_url\<close> are the public URLs resolved for the two storage keys and whose
  \<open>width\<close> and \<open>height\<close> are those reported for the main variant.
\<close>

theorem successful_submission:
  assumes "session s = Some sess" "trim (bio s) \<noteq> []" "avatar s = Some a" "a \<noteq> []"
          "trim (links s) \<noteq> []"
      and "variants_read e a c mb tb"
      and "storage_upload e (lit ''avatars'') (mainFileName sess (date_now e 0)) mb =
             Inr \<lparr>up_error = None\<rparr>"
      and "storage_upload e (lit ''avatars'') (thumbFileName sess (date_now e 1)) tb =
             Inr \<lparr>up_error = None\<rparr>"
  shows "filter is_write (snd (handleSubmit e s)) =
           [Users_update (lit ''users'')
              \<lparr>p_bio = bio s,
               p_avatar = Some
                 \<lparr>url = storage_getPublicUrl e (lit ''avatars'') (mainFileName sess (date_now e 0)),
                  thumbnail_url =
                    storage_getPublicUrl e (lit ''avatars'') (thumbFileName sess (date_now e 1)),
                  metadata = \<lparr>width = res_width (main c), height = res_height (main c),
                              format = lit ''jpeg'', size_md = blob_size mb\<rparr>\<rparr>,
               p_links = links s\<rparr>
              (user_id sess)]"
proof -
  have prep: "filter is_write (prepared e a c) = []"
    by (rule filter_False) (auto dest!: prepared_preparation preparation_only)
  from upload_variants_cases[of e c "mainFileName sess (date_now e 0)" mb
        "thumbFileName sess (date_now e 1)" tb] assms(7,8)
  show ?thesis
    by (auto simp: handleSubmit_valid[OF assms(1-5)] avatar_block_read[OF assms(6)] prep
        split: sum.splits option.splits)
qed

theorem successful_submission_witness:
  "filter is_write (snd (handleSubmit scenario_env scenario_state)) =
     [Users_update (lit ''users'')
        \<lparr>p_bio = lit ''Hello'',
         p_avatar = Some
           \<lparr>url = lit ''https://cdn/avatars/u1-1690.jpg'',
            thumbnail_url = lit ''https://cdn/avatars/u1-1695-thumb.jpg'',
            metadata = \<lparr>width = 800, height = 800, format = lit ''jpeg'', size_md = 3\<rparr>\<rparr>,
         p_links = lit ''https://x.com''\<rparr>
        (lit ''u1'')]"
proof -
  have 1: "storage_upload scenario_env (lit ''avatars'')
             (mainFileName (Session (lit ''u1'')) (date_now scenario_env 0)) [1, 2, 3] =
           Inr \<lparr>up_error = None\<rparr>"
    by (simp add: scenario_defs)
  have 2: "storage_upload scenario_env (lit ''avatars'')
             (thumbFileName (Session (lit ''u1'')) (date_now scenario_env 1)) [4] =
           Inr \<lparr>up_error = None\<rparr>"
    by (simp add: scenario_defs)
  from successful_submission[OF scenario_ok scenario_variants_read 1 2] show ?thesis
    by (simp add: scenario_defs eval_defs number_toString.simps)
qed

text \<open>
  An upload whose response carries an error that is not an \<^verbatim>\<open>Error\<close> instance (a
  plain object decoded from the response body): the thumbnail upload of the scenario
  reports \<open>Payload too large\<close>, no record write follows, and what the screen shows is
  the fixed text \<open>An error occurred.\<close>, not the error the upload reported.
\<close>

theorem upload_error_message_counterexample:
  "storage_upload thumb_upload_plain_error_env (lit ''avatars'') (lit ''u1-1695-thumb.jpg'') [4] =
     Inr \<lparr>up_error = Some (Other_value (lit ''Payload too large''))\<rparr> \<and>
   Storage_upload (lit ''avatars'') (lit ''u1-1695-thumb.jpg'') [4] \<in>
     set (snd (handleSubmit thumb_upload_plain_error_env scenario_state)) \<and>
   filter is_write (snd (handleSubmit thumb_upload_plain_error_env scenario_state)) = [] \<and>
   error (fst (handleSubmit thumb_upload_plain_error_env scenario_state)) =
     Some (lit ''An error occurred.'') \<and>
   error (fst (handleSubmit thumb_upload_plain_error_env scenario_state)) \<noteq>
     Some (lit ''Payload too large'')"
  by (simp add: run_defs thumb_upload_plain_error_env_def scenario_defs eval_defs
        number_toString.simps)

text \<open>
  C1, amended. For every submission: if the run contains a record write, then it
  contains exactly two uploads and neither failed. If an upload of the run fails, by
  rejecting or by resolving with an error in its response, then the run contains no
  record write, and the message shown is obtained from the error of a failed upload of
  the run as line 214 prescribes: the error's own message when it is an \<^verbatim>\<open>Error\<close>
  instance, the fixed text \<open>An error occurred.\<close> otherwise. When both uploads resolve,
  that error is the one in the main response if it has one, and otherwise the one in
  the thumbnail response.
\<close>

theorem upload_error_blocks_write:
  "(\<forall>ev \<in> set (snd (handleSubmit e s)). is_write ev \<longrightarrow>
      (\<exists>mk mb tk tb.
         filter is_upload (snd (handleSubmit e s)) =
           [Storage_upload (lit ''avatars'') mk mb, Storage_upload (lit ''avatars'') tk tb] \<and>
         upload_failure (storage_upload e (lit ''avatars'') mk mb) = None \<and>
         upload_failure (storage_upload e (lit ''avatars'') tk tb) = None)) \<and>
   (\<forall>b k bl x. Storage_upload b k bl \<in> set (snd (handleSubmit e s)) \<and>
        upload_failure (storage_upload e b k bl) = Some x \<longrightarrow>
        filter is_write (snd (handleSubmit e s)) = [] \<and>
        (\<exists>b' k' bl' x'. Storage_upload b' k' bl' \<in> set (snd (handleSubmit e s)) \<and>
            upload_failure (storage_upload e b' k' bl') = Some x' \<and>
            error (fst (handleSubmit e s)) =
              Some (case x' of Error_instance m \<Rightarrow> m
                    | Other_value v \<Rightarrow> lit ''An error occurred.''))) \<and>
   (\<forall>b k bl b' k' bl' r r' x.
        filter is_upload (snd (handleSubmit e s)) =
          [Storage_upload b k bl, Storage_upload b' k' bl'] \<and>
        storage_upload e b k bl = Inr r \<and> storage_upload e b' k' bl' = Inr r' \<and>
        (up_error r = Some x \<or> (up_error r = None \<and> up_error r' = Some x)) \<longrightarrow>
        error (fst (handleSubmit e s)) =
          Some (case x of Error_instance m \<Rightarrow> m | Other_value v \<Rightarrow> lit ''An error occurred.''))"
proof -
  have cm: "catch_message y =
      (case y of Error_instance m \<Rightarrow> m | Other_value v \<Rightarrow> lit ''An error occurred.'')" for y
    by (cases y) simp_all
  from handleSubmit_cases[of e s] show ?thesis
  proof
    assume none: "\<forall>ev \<in> set (snd (handleSubmit e s)). \<not> is_upload ev \<and> \<not> is_write ev"
    then have "filter is_upload (snd (handleSubmit e s)) = []"
      by (simp add: filter_empty_conv)
    with none show ?thesis by fastforce
  next
    assume "\<exists>sess a c mb tb. session s = Some sess \<and> trim (bio s) \<noteq> [] \<and> avatar s = Some a \<and>
       a \<noteq> [] \<and> trim (links s) \<noteq> [] \<and> variants_read e a c mb tb"
    then obtain sess a c mb tb where v: "session s = Some sess" "trim (bio s) \<noteq> []"
      "avatar s = Some a" "a \<noteq> []" "trim (links s) \<noteq> []" and r: "variants_read e a c mb tb"
      by blast
    define mk where "mk = mainFileName sess (date_now e 0)"
    define tk where "tk = thumbFileName sess (date_now e 1)"
    have prepU: "filter is_upload (prepared e a c) = []"
      by (rule filter_False) (auto dest!: prepared_preparation preparation_only)
    have prepW: "filter is_write (prepared e a c) = []"
      by (rule filter_False) (auto dest!: prepared_preparation preparation_only)
    have ups: "filter is_upload (snd (handleSubmit e s)) =
           [Storage_upload (lit ''avatars'') mk mb, Storage_upload (lit ''avatars'') tk tb]"
      using upload_variants_cases[of e c mk mb tk tb]
      by (auto simp: handleSubmit_valid[OF v] avatar_block_read[OF r] mk_def tk_def prepU
            split: sum.splits option.splits)
    have mem: "(b = lit ''avatars'' \<and> k = mk \<and> bl = mb) \<or> (b = lit ''avatars'' \<and> k = tk \<and> bl = tb)"
      if "Storage_upload b k bl \<in> set (snd (handleSubmit e s))" for b k bl
    proof -
      from that have "Storage_upload b k bl \<in> set (filter is_upload (snd (handleSubmit e s)))"
        by simp
      then show ?thesis unfolding ups by auto
    qed
    from upload_variants_cases[of e c mk mb tk tb] consider
      (failed) x where "upload_variants e c mk mb tk tb =
           (Inl x, [Storage_upload (lit ''avatars'') mk mb, Storage_upload (lit ''avatars'') tk tb])"
        "upload_failure (storage_upload e (lit ''avatars'') mk mb) = Some x \<or>
         upload_failure (storage_upload e (lit ''avatars'') tk tb) = Some x"
    | (uploaded) "upload_failure (storage_upload e (lit ''avatars'') mk mb) = None"
        "upload_failure (storage_upload e (lit ''avatars'') tk tb) = None"
      by fast
    then show ?thesis
    proof cases
      case failed
      note uv = failed(1) and f = failed(2)
      have run: "handleSubmit e s =
         (s\<lparr>loading := False, error := Some (catch_message x)\<rparr>,
          [SetLoading True, SetError None] @ prepared e a c @
          [Storage_upload (lit ''avatars'') mk mb, Storage_upload (lit ''avatars'') tk tb] @
          [SetError (Some (catch_message x)), SetLoading False])"
        using uv by (simp add: handleSubmit_valid[OF v] avatar_block_read[OF r] mk_def tk_def)
      have w: "filter is_write (snd (handleSubmit e s)) = []"
        by (simp add: run prepW)
      then have A: "\<forall>ev \<in> set (snd (handleSubmit e s)). \<not> is_write ev"
        by (simp add: filter_empty_conv)
      from f have "\<exists>b' k' bl'. Storage_upload b' k' bl' \<in> set (snd (handleSubmit e s)) \<and>
            upload_failure (storage_upload e b' k' bl') = Some x"
        by (auto simp: run)
      then have B: "\<exists>b' k' bl' x'. Storage_upload b' k' bl' \<in> set (snd (handleSubmit e s)) \<and>
            upload_failure (storage_upload e b' k' bl') = Some x' \<and>
            error (fst (handleSubmit e s)) =
              Some (case x' of Error_instance m \<Rightarrow> m | Other_value v \<Rightarrow> lit ''An error occurred.'')"
        by (auto simp: run cm)
      have C: "error (fst (handleSubmit e s)) =
          Some (case y of Error_instance m \<Rightarrow> m | Other_value v \<Rightarrow> lit ''An error occurred.'')"
        if "filter is_upload (snd (handleSubmit e s)) =
              [Storage_upload b k bl, Storage_upload b' k' bl']"
          "storage_upload e b k bl = Inr q" "storage_upload e b' k' bl' = Inr q'"
          "up_error q = Some y \<or> (up_error q = None \<and> up_error q' = Some y)"
        for b k bl b' k' bl' q q' y
      proof -
        from that(1) have "[Storage_upload b k bl, Storage_upload b' k' bl'] =
            [Storage_upload (lit ''avatars'') mk mb, Storage_upload (lit ''avatars'') tk tb]"
          unfolding ups by (rule sym)
        then have "b = lit ''avatars''" "k = mk" "bl = mb"
          "b' = lit ''avatars''" "k' = tk" "bl' = tb" by simp_all
        with that(2-4) upload_variants_reported[of e mk mb q tk tb q' y c] uv
        have "x = y" by simp
        then show ?thesis by (simp add: run cm)
      qed
      from A B C w show ?thesis by blast
    next
      case uploaded
      note ok = uploaded
      have A: "\<exists>mk mb tk tb.
         filter is_upload (snd (handleSubmit e s)) =
           [Storage_upload (lit ''avatars'') mk mb, Storage_upload (lit ''avatars'') tk tb] \<and>
         upload_failure (storage_upload e (lit ''avatars'') mk mb) = None \<and>
         upload_failure (storage_upload e (lit ''avatars'') tk tb) = None"
        using ups ok by blast
      have B: "\<not> (Storage_upload b k bl \<in> set (snd (handleSubmit e s)) \<and>
        upload_failure (storage_upload e b k bl) = Some x)" for b k bl x
        using mem[of b k bl] ok by auto
      have C: "\<not> (filter is_upload (snd (handleSubmit e s)) =
              [Storage_upload b k bl, Storage_upload b' k' bl'] \<and>
          storage_upload e b k bl = Inr q \<and> storage_upload e b' k' bl' = Inr q' \<and>
          (up_error q = Some y \<or> (up_error q = None \<and> up_error q' = Some y)))"
        for b k bl b' k' bl' q q' y
        using ups ok by auto
      from A B C show ?thesis by blast
    qed
  qed
qed

theorem upload_error_blocks_write_witness:
  "filter is_write (snd (handleSubmit thumb_upload_failed_env scenario_state)) = [] \<and>
   error (fst (handleSubmit thumb_upload_failed_env scenario_state)) =
     Some (lit ''Payload too large'')"
proof -
  let ?k = "thumbFileName (Session (lit ''u1'')) (date_now thumb_upload_failed_env 1)"
  have mem: "Storage_upload (lit ''avatars'') ?k [4] \<in>
               set (snd (handleSubmit thumb_upload_failed_env scenario_state))"
    using handleSubmit_uploading[OF scenario_ok thumb_upload_failed_read] by auto
  have res: "upload_failure (storage_upload thumb_upload_failed_env (lit ''avatars'') ?k [4]) =
               Some (Error_instance (lit ''Payload too large''))"
    by (simp add: thumb_upload_failed_env_def scenario_defs)
  have only: "x = Error_instance (lit ''Payload too large'')"
    if "upload_failure (storage_upload thumb_upload_failed_env b k bl) = Some x" for b k bl x
    using that by (simp add: thumb_upload_failed_env_def scenario_defs split: if_splits)
  from upload_error_blocks_write[of thumb_upload_failed_env scenario_state,
      THEN conjunct2, THEN conjunct1, rule_format, of "lit ''avatars''" ?k "[4]"
        "Error_instance (lit ''Payload too large'')"] mem res
  have "filter is_write (snd (handleSubmit thumb_upload_failed_env scenario_state)) = [] \<and>
        (\<exists>b' k' bl' x'. Storage_upload b' k' bl' \<in>
              set (snd (handleSubmit thumb_upload_failed_env scenario_state)) \<and>
            upload_failure (storage_upload thumb_upload_failed_env b' k' bl') = Some x' \<and>
            error (fst (handleSubmit thumb_upload_failed_env scenario_state)) =
              Some (case x' of Error_instance m \<Rightarrow> m | Other_value v \<Rightarrow> lit ''An error occurred.''))"
    by simp
  with only show ?thesis by fastforce
qed



text \<open>
  C10. A run that reaches the uploads reads the clock exactly twice. The key of the main
  upload is the user id, a dash and the first reading, followed by \<open>.jpg\<close>; the key
  of the thumbnail upload is the user id, a dash and the second reading, followed by
  \<open>-thumb.jpg\<close>. Whenever the two readings differ, the thumbnail key is not the main
  key's prefix (the main key without \<open>.jpg\<close>) followed by \<open>-thumb.jpg\<close>. The
  scenario after it is such an execution.
\<close>

theorem independent_clock_reads:
  fixes e :: env and sess :: session and mainPrefix thumbPrefix :: js_string
  defines "mainPrefix \<equiv> user_id sess @ lit ''-'' @ number_toString (date_now e 0)"
      and "thumbPrefix \<equiv> user_id sess @ lit ''-'' @ number_toString (date_now e 1)"
  assumes "session s = Some sess" "trim (bio s) \<noteq> []" "avatar s = Some a" "a \<noteq> []"
          "trim (links s) \<noteq> []"
      and "variants_read e a c mb tb"
  shows "filter (\<lambda>ev. ev = Date_now) (snd (handleSubmit e s)) = [Date_now, Date_now] \<and>
         filter is_upload (snd (handleSubmit e s)) =
           [Storage_upload (lit ''avatars'') (mainPrefix @ lit ''.jpg'') mb,
            Storage_upload (lit ''avatars'') (thumbPrefix @ lit ''-thumb.jpg'') tb] \<and>
         (date_now e 0 \<noteq> date_now e 1 \<longrightarrow>
            thumbPrefix @ lit ''-thumb.jpg'' \<noteq> mainPrefix @ lit ''-thumb.jpg'')"
proof -
  from handleSubmit_uploading[OF assms(3-8)] obtain post where
    run: "snd (handleSubmit e s) =
           [SetLoading True, SetError None] @ prepared e a c @
           [Storage_upload (lit ''avatars'') (mainFileName sess (date_now e 0)) mb,
            Storage_upload (lit ''avatars'') (thumbFileName sess (date_now e 1)) tb] @ post"
    and post: "\<forall>ev \<in> set post. \<not> is_upload ev \<and> \<not> is_preparation ev" by blast
  have p1: "filter is_upload post = []" "filter (\<lambda>ev. ev = Date_now) post = []"
    using post by (auto simp: filter_empty_conv)
  have p2: "filter is_upload (prepared e a c) = []"
    by (rule filter_False) (auto dest!: prepared_preparation preparation_only)
  have ci: "filter (\<lambda>ev. ev = Date_now) (snd (compressImage e u)) = []" for u
    by (auto simp: compressImage_def Let_def split: sum.splits)
  have rb: "filter (\<lambda>ev. ev = Date_now) (snd (read_blob e u)) = []" for u
    by (auto simp: read_blob_def split: sum.splits)
  have p3: "filter (\<lambda>ev. ev = Date_now) (prepared e a c) = [Date_now, Date_now]"
    by (simp add: prepared_def ci rb)
  have "thumbPrefix @ lit ''-thumb.jpg'' \<noteq> mainPrefix @ lit ''-thumb.jpg''"
    if "date_now e 0 \<noteq> date_now e 1"
    using that by (auto simp: mainPrefix_def thumbPrefix_def dest: number_toString_inj)
  then show ?thesis
    by (simp add: run p1 p2 p3 mainFileName_def thumbFileName_def mainPrefix_def thumbPrefix_def)
qed

theorem independent_clock_reads_witness:
  "date_now scenario_env 0 \<noteq> date_now scenario_env 1 \<and>
   filter (\<lambda>ev. ev = Date_now) (snd (handleSubmit scenario_env scenario_state)) =
     [Date_now, Date_now] \<and>
   filter is_upload (snd (handleSubmit scenario_env scenario_state)) =
     [Storage_upload (lit ''avatars'') (lit ''u1-1690.jpg'') [1, 2, 3],
      Storage_upload (lit ''avatars'') (lit ''u1-1695-thumb.jpg'') [4]] \<and>
   lit ''u1-1695-thumb.jpg'' \<noteq> lit ''u1-1690'' @ lit ''-thumb.jpg''"
proof -
  have k: "date_now scenario_env 0 \<noteq> date_now scenario_env 1"
    by (simp add: scenario_defs)
  have p: "(user_id (Session (lit ''u1'')) @ lit ''-'' @ number_toString (date_now scenario_env 0)) @
             lit ''.jpg'' = lit ''u1-1690.jpg''"
    "(user_id (Session (lit ''u1'')) @ lit ''-'' @ number_toString (date_now scenario_env 1)) @
             lit ''-thumb.jpg'' = lit ''u1-1695-thumb.jpg''"
    "(user_id (Session (lit ''u1'')) @ lit ''-'' @ number_toString (date_now scenario_env 0)) @
             lit ''-thumb.jpg'' = lit ''u1-1690'' @ lit ''-thumb.jpg''"
    by (simp_all add: scenario_defs number_toString.simps lit_def)
  from independent_clock_reads[OF scenario_ok scenario_variants_read] k show ?thesis
    unfolding p by simp
qed

text \<open>
  C7. If the run issues a record write and the write fails (its promise rejects, or it
  resolves with an error), then both uploads had been issued and had succeeded, the run
  contains no deletion call, the write is followed only by showing the error and
  resetting the loading flag, and in the final state the error is set and the loading
  flag is false.
\<close>

theorem write_failure_keeps_uploads:
  assumes "Users_update t p i \<in> set (snd (handleSubmit e s))"
      and "users_update e t p i = Inl x \<or> users_update e t p i = Inr (Some x)"
  shows "(\<forall>ev \<in> set (snd (handleSubmit e s)). \<not> is_remove ev) \<and>
         (\<exists>pre. snd (handleSubmit e s) =
            pre @ [Users_update t p i, SetError (Some (catch_message x)), SetLoading False]) \<and>
         (\<exists>mk mb tk tb.
            filter is_upload (snd (handleSubmit e s)) =
              [Storage_upload (lit ''avatars'') mk mb, Storage_upload (lit ''avatars'') tk tb] \<and>
            upload_failure (storage_upload e (lit ''avatars'') mk mb) = None \<and>
            upload_failure (storage_upload e (lit ''avatars'') tk tb) = None) \<and>
         error (fst (handleSubmit e s)) = Some (catch_message x) \<and>
         loading (fst (handleSubmit e s)) = False"
proof -
  have rem: "\<forall>ev \<in> set (snd (handleSubmit e s)). \<not> is_remove ev"
    using handleSubmit_no_remove by blast
  from handleSubmit_cases[of e s] assms(1) obtain sess a c mb tb where
    v: "session s = Some sess" "trim (bio s) \<noteq> []" "avatar s = Some a" "a \<noteq> []"
       "trim (links s) \<noteq> []" and r: "variants_read e a c mb tb"
    by fastforce
  define mk where "mk = mainFileName sess (date_now e 0)"
  define tk where "tk = thumbFileName sess (date_now e 1)"
  have prepU: "filter is_upload (prepared e a c) = []"
    by (rule filter_False) (auto dest!: prepared_preparation preparation_only)
  have prepW: "Users_update t p i \<notin> set (prepared e a c)"
    using prepared_preparation[of "Users_update t p i" e a c] by auto
  from upload_variants_cases[of e c mk mb tk tb] show ?thesis
  proof
    assume "\<exists>x. upload_variants e c mk mb tk tb =
           (Inl x, [Storage_upload (lit ''avatars'') mk mb, Storage_upload (lit ''avatars'') tk tb]) \<and>
        (upload_failure (storage_upload e (lit ''avatars'') mk mb) = Some x \<or>
         upload_failure (storage_upload e (lit ''avatars'') tk tb) = Some x)"
    then obtain y where "upload_variants e c mk mb tk tb =
           (Inl y, [Storage_upload (lit ''avatars'') mk mb, Storage_upload (lit ''avatars'') tk tb])"
      by blast
    with assms(1) prepW have False
      by (simp add: handleSubmit_valid[OF v] avatar_block_read[OF r] mk_def tk_def)
    then show ?thesis ..
  next
    assume ok: "upload_failure (storage_upload e (lit ''avatars'') mk mb) = None \<and>
    upload_failure (storage_upload e (lit ''avatars'') tk tb) = None \<and>
    upload_variants e c mk mb tk tb =
      (Inr \<lparr>url = storage_getPublicUrl e (lit ''avatars'') mk,
            thumbnail_url = storage_getPublicUrl e (lit ''avatars'') tk,
            metadata = \<lparr>width = res_width (main c), height = res_height (main c),
                        format = lit ''jpeg'', size_md = blob_size mb\<rparr>\<rparr>,
       [Storage_upload (lit ''avatars'') mk mb, Storage_upload (lit ''avatars'') tk tb,
        Storage_getPublicUrl (lit ''avatars'') mk, Storage_getPublicUrl (lit ''avatars'') tk])"
    define d where "d = \<lparr>url = storage_getPublicUrl e (lit ''avatars'') mk,
            thumbnail_url = storage_getPublicUrl e (lit ''avatars'') tk,
            metadata = \<lparr>width = res_width (main c), height = res_height (main c),
                        format = lit ''jpeg'', size_md = blob_size mb\<rparr>\<rparr>"
    define q where "q = \<lparr>p_bio = bio s, p_avatar = Some d, p_links = links s\<rparr>"
    from ok have uv: "upload_variants e c mk mb tk tb =
      (Inr d, [Storage_upload (lit ''avatars'') mk mb, Storage_upload (lit ''avatars'') tk tb,
        Storage_getPublicUrl (lit ''avatars'') mk, Storage_getPublicUrl (lit ''avatars'') tk])"
      by (simp add: d_def)
    have tpi: "t = lit ''users'' \<and> p = q \<and> i = user_id sess"
      using assms(1) prepW uv
      by (auto simp: handleSubmit_valid[OF v] avatar_block_read[OF r] mk_def tk_def q_def
          split: sum.splits option.splits)
    with assms(2) have w: "users_update e (lit ''users'') q (user_id sess) = Inl x \<or>
        users_update e (lit ''users'') q (user_id sess) = Inr (Some x)" by simp
    have ups: "filter is_upload (snd (handleSubmit e s)) =
           [Storage_upload (lit ''avatars'') mk mb, Storage_upload (lit ''avatars'') tk tb]"
      using uv by (simp add: handleSubmit_valid[OF v] avatar_block_read[OF r] mk_def tk_def prepU
            split: sum.splits option.splits)
    have run: "handleSubmit e s =
      (s\<lparr>loading := False, error := Some (catch_message x)\<rparr>,
       ([SetLoading True, SetError None] @ prepared e a c @
        [Storage_upload (lit ''avatars'') mk mb, Storage_upload (lit ''avatars'') tk tb,
         Storage_getPublicUrl (lit ''avatars'') mk, Storage_getPublicUrl (lit ''avatars'') tk]) @
       [Users_update t p i, SetError (Some (catch_message x)), SetLoading False])"
      using uv w tpi
      by (auto simp: handleSubmit_valid[OF v] avatar_block_read[OF r] mk_def tk_def q_def)
    have "\<exists>pre. snd (handleSubmit e s) =
            pre @ [Users_update t p i, SetError (Some (catch_message x)), SetLoading False]"
      unfolding run snd_conv by (rule exI) (rule refl)
    moreover have "error (fst (handleSubmit e s)) = Some (catch_message x)"
      "loading (fst (handleSubmit e s)) = False"
      by (simp_all add: run)
    moreover have "\<exists>mk mb tk tb.
            filter is_upload (snd (handleSubmit e s)) =
              [Storage_upload (lit ''avatars'') mk mb, Storage_upload (lit ''avatars'') tk tb] \<and>
            upload_failure (storage_upload e (lit ''avatars'') mk mb) = None \<and>
            upload_failure (storage_upload e (lit ''avatars'') tk tb) = None"
      using ups ok by blast
    ultimately show ?thesis using rem by blast
  qed
qed

theorem write_failure_keeps_uploads_witness:
  "filter is_remove (snd (handleSubmit write_failed_env scenario_state)) = [] \<and>
   length (filter is_upload (snd (handleSubmit write_failed_env scenario_state))) = 2 \<and>
   error (fst (handleSubmit write_failed_env scenario_state)) = Some (lit ''An error occurred.'') \<and>
   loading (fst (handleSubmit write_failed_env scenario_state)) = False"
proof -
  have res: "users_update write_failed_env t p i = Inl (Other_value (lit ''permission denied'')) \<or>
             users_update write_failed_env t p i = Inr (Some (Other_value (lit ''permission denied'')))"
    for t p i
    by (simp add: write_failed_env_def scenario_defs)
  from write_failure_keeps_uploads[OF write_failed_run res] show ?thesis
    by (auto simp: filter_empty_conv)
qed

text \<open>
  C8. When the synchronous part of \<^verbatim>\<open>handleSubmit\<close> has left a submission in
  flight, the loading flag it has set is true; in any state whose loading flag is still
  that one, pressing the submit control does nothing at all: the state is unchanged and
  no call is made. The gate is the disabled control: \<^verbatim>\<open>handleSubmit\<close> itself never
  reads the flag (lemma \<open>handleSubmit_ignores_loading\<close>).
\<close>

theorem press_while_in_flight:
  assumes "handleSubmit_sync s = In_flight sess s1 tr0"
      and "loading s2 = loading s1"
  shows "press_submit e s2 = (s2, [])"
proof -
  from assms(1) have "loading s1"
    by (auto simp: handleSubmit_sync_def Let_def split: option.splits if_splits)
  with assms(2) show ?thesis
    by (simp add: press_submit_def submit_control_def split: option.splits)
qed

theorem press_while_in_flight_witness:
  "press_submit scenario_env (scenario_state\<lparr>loading := True\<rparr>) =
     (scenario_state\<lparr>loading := True\<rparr>, [])"
proof -
  have 1: "handleSubmit_sync scenario_state =
             In_flight (Session (lit ''u1'')) (scenario_state\<lparr>loading := True, error := None\<rparr>)
               [SetLoading True, SetError None]"
    by (simp add: handleSubmit_sync_def scenario_defs eval_defs)
  have 2: "loading (scenario_state\<lparr>loading := True\<rparr>) =
           loading (scenario_state\<lparr>loading := True, error := None\<rparr>)"
    by simp
  from press_while_in_flight[OF 1 2] show ?thesis .
qed

text \<open>
  C9. Every record write of every run carries the bio and the links exactly as they
  stand in the state, untrimmed. In the scenario that follows, both fields are
  surrounded by spaces, the write is issued, and what it stores differs from the
  trimmed text.
\<close>

theorem write_payload_untrimmed:
  "Users_update t p i \<in> set (snd (handleSubmit e s)) \<Longrightarrow> p_bio p = bio s \<and> p_links p = links s"
  by (auto simp: handleSubmit_def handleSubmit_sync_def try_block_def avatar_block_def
        upload_variants_def compressImage_def read_blob_def Let_def
      split: option.splits sum.splits prod.splits if_splits)

theorem write_payload_untrimmed_witness:
  "\<exists>t p i. Users_update t p i \<in> set (snd (handleSubmit scenario_env padded_state)) \<and>
     p_bio p = lit ''  Hello '' \<and> p_links p = lit '' https://x.com '' \<and>
     trim (p_bio p) = lit ''Hello'' \<and> trim (p_links p) = lit ''https://x.com''"
proof -
  from padded_run obtain t p i where
    mem: "Users_update t p i \<in> set (snd (handleSubmit scenario_env padded_state))" by blast
  from write_payload_untrimmed[OF mem] have raw: "p_bio p = lit ''  Hello ''"
    "p_links p = lit '' https://x.com ''"
    by (simp_all add: padded_state_def scenario_defs)
  have "trim (lit ''  Hello '') = lit ''Hello''"
    "trim (lit '' https://x.com '') = lit ''https://x.com''"
    by (simp_all add: eval_defs)
  with raw mem have "Users_update t p i \<in> set (snd (handleSubmit scenario_env padded_state)) \<and>
     p_bio p = lit ''  Hello '' \<and> p_links p = lit '' https://x.com '' \<and>
     trim (p_bio p) = lit ''Hello'' \<and> trim (p_links p) = lit ''https://x.com''"
    by simp
  then show ?thesis by blast
qed

end
